theory Spec2Isabelle
  imports Complex_Main
begin

section \<open>Data model of \<open>coherent_rates/system.py\<close>\<close>

text \<open>
  The module computes with numpy arrays of double precision floats. They are modelled
  by the reals and the complex numbers: rounding is outside the model, and so are
  overflow and underflow except where a definition says otherwise. Where numpy would
  silently continue with \<open>inf\<close> or \<open>nan\<close> (a float division by zero, the square root
  of a negative float, a normalization that underflows to zero), the model stops with
  the outcome \<open>NotFinite\<close>, since HOL's total division and root return ordinary numbers
  there. Python exceptions are the other constructors of \<open>error\<close>.
\<close>

datatype error =
  IndexError | ZeroDivisionError | OverflowError | ValueError | BasisMismatch | NotFinite

text \<open>The dataclass \<open>PeriodicSystem\<close>; its field \<open>id\<close> is named \<open>system_id\<close> here.\<close>

record PeriodicSystem =
  system_id :: string
  barrier_energy :: real
  lattice_constant :: real
  mass :: real

text \<open>The dataclass \<open>PeriodicSystemConfig\<close>; tuples of ints are lists of ints.\<close>

record PeriodicSystemConfig =
  shape :: "int list"
  resolution :: "int list"
  n_bands :: int


text \<open>
  Potentials, operators, states and lists of values are all dictionaries with the two
  keys \<open>"basis"\<close> and \<open>"data"\<close>.
\<close>

record ('b, 'd) basis_data =
  basis :: 'b
  data :: 'd

text \<open>
  Modelled from the spec: the basis classes of the library \<open>surface_potential_analysis\<close>
  are not part of the sources. A basis descriptor holds the constructor arguments the
  module passes; \<open>delta_x\<close> is a vector with one entry per dimension. The attributes the
  module reads are \<open>delta_x\<close>, \<open>n\<close> and \<open>fundamental_n\<close>; for the evenly spaced basis the
  fundamental size is the number of samples of the whole super cell, \<open>n * step\<close>.
\<close>

datatype basis_axis =
    FundamentalTransformedPositionBasis1d "real list" int
  | FundamentalTransformedPositionBasis "real list" int
  | FundamentalPositionBasis "real list" int
  | TransformedPositionBasis1d "real list" int int
  | EvenlySpacedTransformedPositionBasis "real list" int int int

fun delta_x :: "basis_axis \<Rightarrow> real list" where
  "delta_x (FundamentalTransformedPositionBasis1d d n) = d"
| "delta_x (FundamentalTransformedPositionBasis d n) = d"
| "delta_x (FundamentalPositionBasis d n) = d"
| "delta_x (TransformedPositionBasis1d d n fn) = d"
| "delta_x (EvenlySpacedTransformedPositionBasis d n step off) = d"

fun basis_n :: "basis_axis \<Rightarrow> int" where
  "basis_n (FundamentalTransformedPositionBasis1d d n) = n"
| "basis_n (FundamentalTransformedPositionBasis d n) = n"
| "basis_n (FundamentalPositionBasis d n) = n"
| "basis_n (TransformedPositionBasis1d d n fn) = n"
| "basis_n (EvenlySpacedTransformedPositionBasis d n step off) = n"

fun fundamental_n :: "basis_axis \<Rightarrow> int" where
  "fundamental_n (FundamentalTransformedPositionBasis1d d n) = n"
| "fundamental_n (FundamentalTransformedPositionBasis d n) = n"
| "fundamental_n (FundamentalPositionBasis d n) = n"
| "fundamental_n (TransformedPositionBasis1d d n fn) = fn"
| "fundamental_n (EvenlySpacedTransformedPositionBasis d n step off) = n * step"

text \<open>\<open>t[0]\<close> on a Python tuple raises \<open>IndexError\<close> when the tuple is empty.\<close>

definition index0 :: "'a list \<Rightarrow> error + 'a" where
  "index0 xs = (case xs of [] \<Rightarrow> Inl IndexError | x # _ \<Rightarrow> Inr x)"

section \<open>The potential\<close>

text \<open>
  \<open>get_potential\<close>: one unit cell of width \<open>sqrt 3 * lattice_constant / 2\<close> and the three
  Fourier amplitudes \<open>0.25 * barrier_energy * [2, -1, -1] * sqrt 3\<close>.
\<close>

definition get_potential :: "PeriodicSystem \<Rightarrow> (basis_axis list, real list) basis_data" where
  "get_potential system =
     (let delta_x = sqrt 3 * lattice_constant system / 2;
          axis = FundamentalTransformedPositionBasis1d [delta_x] 3;
          vector = map (\<lambda>c. 0.25 * barrier_energy system * c * sqrt 3) [2, -1, -1]
      in \<lparr>basis = [axis], data = vector\<rparr>)"

text \<open>
  Modelled from the spec: the functions imported from \<open>surface_potential_analysis\<close> are
  not part of the sources. Those whose result the module only passes on are parameters,
  collected in one record; \<open>'h\<close> is the type of a Hamiltonian in real space, \<open>'w\<close> of a
  list of Bloch wavefunctions, \<open>'lb\<close> of the basis of that list and \<open>'b\<close> of the basis of
  a state.
  \<^item> \<open>convert_potential_data src tgt v\<close> is the data of
    \<open>convert_potential_to_basis({"basis": src, "data": v}, tgt)\<close>;
  \<^item> \<open>generate_wavepacket\<close> receives the Hamiltonian generator, the bands to save
    (\<open>EvenlySpacedBasis(n, step, offset)\<close> as a triple) and the list basis;
  \<^item> \<open>get_full_bloch_hamiltonian\<close> returns the diagonal Hamiltonian: a pair of equal
    bases and the vector of eigenvalues, real as those of a Hermitian operator;
  \<^item> \<open>convert_state_vector_to_basis\<close> may fail with \<open>BasisMismatch\<close>.
\<close>

record ('h, 'w, 'lb, 'b) library =
  convert_potential_data :: "basis_axis list \<Rightarrow> basis_axis list \<Rightarrow> complex list \<Rightarrow> complex list"
  stacked_basis_as_fundamental_momentum_basis :: "basis_axis list \<Rightarrow> basis_axis list"
  stacked_basis_as_fundamental_position_basis :: "basis_axis list \<Rightarrow> basis_axis list"
  total_surface_hamiltonian ::
    "(basis_axis list, complex list) basis_data \<Rightarrow> real \<Rightarrow> real list \<Rightarrow> 'h"
  generate_wavepacket :: "(real list \<Rightarrow> error + 'h) \<Rightarrow> int \<times> int \<times> int \<Rightarrow> 'lb \<Rightarrow> error + 'w"
  fundamental_stacked_basis_from_shape :: "int list \<Rightarrow> 'lb"
  get_full_bloch_hamiltonian :: "'w \<Rightarrow> ('b \<times> 'b, real list) basis_data"
  convert_state_vector_to_basis ::
    "('b, complex list) basis_data \<Rightarrow> 'b \<Rightarrow> error + ('b, complex list) basis_data"
  get_periodic_x_operator :: "'b \<Rightarrow> int list \<Rightarrow> ('b \<times> 'b, complex list list) basis_data"

text \<open>\<open>convert_potential_to_basis\<close> returns a potential in the basis it is given.\<close>

definition convert_potential_to_basis ::
  "('h, 'w, 'lb, 'b) library \<Rightarrow> (basis_axis list, complex list) basis_data \<Rightarrow> basis_axis list
   \<Rightarrow> (basis_axis list, complex list) basis_data" where
  "convert_potential_to_basis lib potential b =
     \<lparr>basis = b, data = convert_potential_data lib (basis potential) b (data potential)\<rparr>"

text \<open>
  The least magnitude that rounds to no finite double: halfway between the largest
  double, \<open>2 ^ 1024 - 2 ^ 971\<close>, and \<open>2 ^ 1024\<close>.
\<close>

definition float_overflow_bound :: real where
  "float_overflow_bound = 2 ^ 1024 - 2 ^ 970"

text \<open>
  \<open>np.sqrt(p / q)\<close> for two Python ints: \<open>p / q\<close> raises \<open>ZeroDivisionError\<close> when \<open>q\<close>
  is zero and \<open>OverflowError\<close> when the quotient is too large for a float, and the root
  of a negative quotient is \<open>nan\<close>.
\<close>

definition sqrt_ratio :: "int \<Rightarrow> int \<Rightarrow> error + real" where
  "sqrt_ratio p q =
     (if q = 0 then Inl ZeroDivisionError
      else if float_overflow_bound \<le> \<bar>real_of_int p / real_of_int q\<bar> then Inl OverflowError
      else if real_of_int p / real_of_int q < 0 then Inl NotFinite
      else Inr (sqrt (real_of_int p / real_of_int q)))"

definition get_interpolated_potential ::
  "('h, 'w, 'lb, 'b) library \<Rightarrow> PeriodicSystem \<Rightarrow> int list
   \<Rightarrow> error + (basis_axis list, complex list) basis_data" where
  "get_interpolated_potential lib system resolution' =
     (let potential = get_potential system in
      case index0 (basis potential) of Inl e \<Rightarrow> Inl e | Inr old \<Rightarrow>
     (case index0 resolution' of Inl e \<Rightarrow> Inl e | Inr r0 \<Rightarrow>
     (let basis' = [TransformedPositionBasis1d (delta_x old) (basis_n old) r0] in
      case sqrt_ratio r0 (basis_n old) of Inl e \<Rightarrow> Inl e | Inr factor \<Rightarrow>
     (let scaled_potential = map (\<lambda>v. v * factor) (data potential) in
      Inr (convert_potential_to_basis lib
             \<lparr>basis = basis', data = map complex_of_real scaled_potential\<rparr>
             (stacked_basis_as_fundamental_momentum_basis lib basis'))))))"

text \<open>The fundamental size of a \<open>TupleBasis\<close> is the product over its axes.\<close>

definition get_extended_interpolated_potential ::
  "('h, 'w, 'lb, 'b) library \<Rightarrow> PeriodicSystem \<Rightarrow> int list \<Rightarrow> int list
   \<Rightarrow> error + (basis_axis list, complex list) basis_data" where
  "get_extended_interpolated_potential lib system shape' resolution' =
     (case get_interpolated_potential lib system resolution' of Inl e \<Rightarrow> Inl e
      | Inr interpolated \<Rightarrow>
     (case index0 (basis interpolated) of Inl e \<Rightarrow> Inl e | Inr old \<Rightarrow>
     (case index0 shape' of Inl e \<Rightarrow> Inl e | Inr s0 \<Rightarrow>
     (let basis' = [EvenlySpacedTransformedPositionBasis
                      (map (\<lambda>d. d * real_of_int s0) (delta_x old)) (basis_n old) s0 0] in
      case sqrt_ratio (prod_list (map fundamental_n basis')) (basis_n old) of
        Inl e \<Rightarrow> Inl e
      | Inr factor \<Rightarrow>
          Inr \<lparr>basis = basis',
               data = map (\<lambda>v. v * complex_of_real factor) (data interpolated)\<rparr>))))"

section \<open>The Hamiltonian\<close>

text \<open>
  \<open>_get_full_hamiltonian\<close>; the keyword argument \<open>bloch_fraction\<close> is an option, \<open>None\<close>
  when the caller omits it.
\<close>

definition get_full_hamiltonian ::
  "('h, 'w, 'lb, 'b) library \<Rightarrow> PeriodicSystem \<Rightarrow> int list \<Rightarrow> int list \<Rightarrow> real list option
   \<Rightarrow> error + 'h" where
  "get_full_hamiltonian lib system shape' resolution' bloch_fraction =
     (let bloch_fraction' = (case bloch_fraction of None \<Rightarrow> [0] | Some b \<Rightarrow> b) in
      case get_extended_interpolated_potential lib system shape' resolution' of
        Inl e \<Rightarrow> Inl e
      | Inr potential \<Rightarrow>
          let converted = convert_potential_to_basis lib potential
                (stacked_basis_as_fundamental_position_basis lib (basis potential))
          in Inr (total_surface_hamiltonian lib converted (mass system) bloch_fraction'))"

text \<open>\<open>_get_bloch_wavefunctions\<close>: one cell per Bloch fraction, the lowest \<open>n_bands\<close> bands.\<close>

definition get_bloch_wavefunctions ::
  "('h, 'w, 'lb, 'b) library \<Rightarrow> PeriodicSystem \<Rightarrow> PeriodicSystemConfig \<Rightarrow> error + 'w" where
  "get_bloch_wavefunctions lib system config =
     (let hamiltonian_generator =
            (\<lambda>bloch_fraction.
               get_full_hamiltonian lib system [1] (resolution config) (Some bloch_fraction))
      in generate_wavepacket lib hamiltonian_generator (n_bands config, 1, 0)
           (fundamental_stacked_basis_from_shape lib (shape config)))"

text \<open>
  The effects of the module: \<open>np.random.rand\<close> reads the global generator, modelled by
  the sequence \<open>random_source\<close> of the numbers it will return. Two counters record how
  often \<open>get_hamiltonian\<close> and \<open>get_periodic_x_operator\<close> have been called; the source
  keeps no cache. A computation takes the world and returns an error or its result with
  the new world.
\<close>

record world =
  random_source :: "nat \<Rightarrow> real"
  hamiltonian_builds :: nat
  operator_builds :: nat

text \<open>\<open>np.random.rand(m)\<close>: the next \<open>m\<close> numbers of the generator.\<close>

definition random_rand :: "nat \<Rightarrow> world \<Rightarrow> real list \<times> world" where
  "random_rand m w =
     (map (random_source w) [0..<m], w\<lparr>random_source := (\<lambda>i. random_source w (i + m))\<rparr>)"

text \<open>\<open>get_hamiltonian\<close>: the diagonal Hamiltonian of all saved bands and Bloch fractions.\<close>

definition get_hamiltonian ::
  "('h, 'w, 'lb, 'b) library \<Rightarrow> PeriodicSystem \<Rightarrow> PeriodicSystemConfig \<Rightarrow> world
   \<Rightarrow> error + (('b \<times> 'b, real list) basis_data \<times> world)" where
  "get_hamiltonian lib system config w =
     (let w' = w\<lparr>hamiltonian_builds := hamiltonian_builds w + 1\<rparr> in
      case get_bloch_wavefunctions lib system config of Inl e \<Rightarrow> Inl e
      | Inr wavefunctions \<Rightarrow> Inr (get_full_bloch_hamiltonian lib wavefunctions, w'))"

text \<open>The call of \<open>get_periodic_x_operator\<close>, counted.\<close>

definition build_periodic_x_operator ::
  "('h, 'w, 'lb, 'b) library \<Rightarrow> 'b \<Rightarrow> int list \<Rightarrow> world
   \<Rightarrow> ('b \<times> 'b, complex list list) basis_data \<times> world" where
  "build_periodic_x_operator lib b direction w =
     (get_periodic_x_operator lib b direction, w\<lparr>operator_builds := operator_builds w + 1\<rparr>)"

section \<open>Time evolution\<close>

text \<open>
  Modelled from the spec: the constants \<open>scipy.constants.hbar\<close> and \<open>scipy.constants.k\<close>,
  the reduced Planck constant and the Boltzmann constant in SI units.
\<close>

definition hbar :: real where
  "hbar = 662607015 / 10 ^ 42 / (2 * pi)"

definition boltzmann_k :: real where
  "boltzmann_k = 1380649 / 10 ^ 29"

text \<open>
  Modelled from the spec: the library's time basis \<open>EvenlySpacedTimeBasis\<close> is not part
  of the sources. It is represented by the ordered sequence of its timestamps; its
  attribute \<open>n\<close> is the length of that sequence.
\<close>

type_synonym time_basis = "real list"

text \<open>
  Modelled from the spec: \<open>solve_schrodinger_equation_diagonal\<close> of the library is not
  part of the sources. For each timestamp \<open>t\<close> it multiplies each eigencomponent amplitude
  by \<open>exp (- \<i> * eigenvalue * t / hbar)\<close>, and it fails with \<open>BasisMismatch\<close> when the
  state has not one amplitude per eigenvalue. The result has one row per timestamp.
\<close>

definition solve_schrodinger_equation_diagonal ::
  "('b, complex list) basis_data \<Rightarrow> time_basis \<Rightarrow> ('b \<times> 'b, real list) basis_data
   \<Rightarrow> error + (time_basis \<times> 'b, complex list list) basis_data" where
  "solve_schrodinger_equation_diagonal initial_state times' hamiltonian =
     (if length (data initial_state) \<noteq> length (data hamiltonian) then Inl BasisMismatch
      else Inr \<lparr>basis = (times', fst (basis hamiltonian)),
                data = map (\<lambda>t. map2 (\<lambda>a e. a * exp (- \<i> * complex_of_real e
                                                   * complex_of_real t / complex_of_real hbar))
                                  (data initial_state) (data hamiltonian)) times'\<rparr>)"

text \<open>\<open>solve_schrodinger_equation\<close>: build the Hamiltonian, convert the state, evolve.\<close>

definition solve_schrodinger_equation ::
  "('h, 'w, 'lb, 'b) library \<Rightarrow> PeriodicSystem \<Rightarrow> PeriodicSystemConfig
   \<Rightarrow> ('b, complex list) basis_data \<Rightarrow> time_basis \<Rightarrow> world
   \<Rightarrow> error + ((time_basis \<times> 'b, complex list list) basis_data \<times> world)" where
  "solve_schrodinger_equation lib system config initial_state times' w =
     (case get_hamiltonian lib system config w of Inl e \<Rightarrow> Inl e
      | Inr (hamiltonian, w') \<Rightarrow>
     (case convert_state_vector_to_basis lib initial_state (fst (basis hamiltonian)) of
        Inl e \<Rightarrow> Inl e
      | Inr converted_initial \<Rightarrow>
     (case solve_schrodinger_equation_diagonal converted_initial times' hamiltonian of
        Inl e \<Rightarrow> Inl e
      | Inr states \<Rightarrow> Inr (states, w'))))"

section \<open>The intermediate scattering function\<close>

text \<open>
  Modelled from the spec: \<open>apply_operator_to_state\<close>, \<open>apply_operator_to_states\<close> and
  \<open>calculate_inner_products_elementwise\<close> of the library are not part of the sources.
  An operator is a matrix, given by its rows; applying it is the product of the matrix
  with the amplitude vector, in the operator's basis, and fails with \<open>BasisMismatch\<close>
  when a row has not one entry per amplitude. The inner product is conjugate linear in
  its first argument.
\<close>

definition mat_vec :: "complex list list \<Rightarrow> complex list \<Rightarrow> complex list" where
  "mat_vec rows v = map (\<lambda>row. sum_list (map2 (*) row v)) rows"

definition inner_product :: "complex list \<Rightarrow> complex list \<Rightarrow> complex" where
  "inner_product a b = sum_list (map2 (\<lambda>x y. cnj x * y) a b)"

definition apply_operator_to_state ::
  "('b \<times> 'b, complex list list) basis_data \<Rightarrow> ('b, complex list) basis_data
   \<Rightarrow> error + ('b, complex list) basis_data" where
  "apply_operator_to_state operator state =
     (if list_all (\<lambda>row. length row = length (data state)) (data operator)
      then Inr \<lparr>basis = fst (basis operator), data = mat_vec (data operator) (data state)\<rparr>
      else Inl BasisMismatch)"

definition apply_operator_to_states ::
  "('b \<times> 'b, complex list list) basis_data \<Rightarrow> (time_basis \<times> 'b, complex list list) basis_data
   \<Rightarrow> error + (time_basis \<times> 'b, complex list list) basis_data" where
  "apply_operator_to_states operator states =
     (if list_all (\<lambda>v. list_all (\<lambda>row. length row = length v) (data operator)) (data states)
      then Inr \<lparr>basis = (fst (basis states), fst (basis operator)),
                data = map (mat_vec (data operator)) (data states)\<rparr>
      else Inl BasisMismatch)"

definition calculate_inner_products_elementwise ::
  "(time_basis \<times> 'b, complex list list) basis_data
   \<Rightarrow> (time_basis \<times> 'b, complex list list) basis_data
   \<Rightarrow> error + (time_basis, complex list) basis_data" where
  "calculate_inner_products_elementwise state_0 state_1 =
     (if list_all2 (\<lambda>a b. length a = length b) (data state_0) (data state_1)
      then Inr \<lparr>basis = fst (basis state_0),
                data = map2 inner_product (data state_0) (data state_1)\<rparr>
      else Inl BasisMismatch)"

text \<open>\<open>get_isf_from_hamiltonian\<close>: the Hamiltonian and the operator are given.\<close>

definition get_isf_from_hamiltonian ::
  "('h, 'w, 'lb, 'b) library \<Rightarrow> ('b \<times> 'b, real list) basis_data
   \<Rightarrow> ('b \<times> 'b, complex list list) basis_data \<Rightarrow> ('b, complex list) basis_data \<Rightarrow> time_basis
   \<Rightarrow> error + (time_basis, complex list) basis_data" where
  "get_isf_from_hamiltonian lib hamiltonian operator initial_state times' =
     (case convert_state_vector_to_basis lib initial_state (fst (basis hamiltonian)) of
        Inl e \<Rightarrow> Inl e
      | Inr converted_initial \<Rightarrow>
     (case solve_schrodinger_equation_diagonal converted_initial times' hamiltonian of
        Inl e \<Rightarrow> Inl e
      | Inr state_evolved \<Rightarrow>
     (case apply_operator_to_states operator state_evolved of Inl e \<Rightarrow> Inl e
      | Inr state_evolved_scattered \<Rightarrow>
     (case apply_operator_to_state operator initial_state of Inl e \<Rightarrow> Inl e
      | Inr state_scattered \<Rightarrow>
     (case convert_state_vector_to_basis lib state_scattered (fst (basis hamiltonian)) of
        Inl e \<Rightarrow> Inl e
      | Inr converted_scattered \<Rightarrow>
     (case solve_schrodinger_equation_diagonal converted_scattered times' hamiltonian of
        Inl e \<Rightarrow> Inl e
      | Inr state_scattered_evolved \<Rightarrow>
          calculate_inner_products_elementwise state_scattered_evolved
            state_evolved_scattered))))))"


section \<open>Thermal states and the thermal average\<close>

text \<open>
  Where the floats of the Boltzmann states leave the reals. At temperature zero the
  exponent \<open>- E / (2 * k * temperature)\<close> is a float division by zero for every
  eigenvalue. Where every exponent is below \<open>- 373\<close>, every squared factor is below
  \<open>exp (- 746)\<close>, less than half the smallest positive double \<open>2 ^ - 1074\<close>, and rounds
  to \<open>0.0\<close>: the sum of the squares and the normalization are \<open>0.0\<close>, and the division
  by the normalization gives \<open>inf\<close> or \<open>nan\<close> in every component. With no eigenvalue at
  all, no division takes place. Overflow of the factors, for exponents above \<open>354\<close>, is
  outside the model.
\<close>

definition boltzmann_not_finite :: "real \<Rightarrow> real list \<Rightarrow> bool" where
  "boltzmann_not_finite temperature es =
     (es \<noteq> []
      \<and> (temperature = 0
         \<or> list_all (\<lambda>e. - e / (2 * boltzmann_k * temperature) < - 373) es))"

text \<open>
  \<open>get_random_boltzmann_state\<close>. The amplitude of eigencomponent \<open>i\<close> is
  \<open>exp (- E i / (2 * k * temperature))\<close> times a random phase, divided by the root of the
  sum of the squared amplitudes.
\<close>

definition get_random_boltzmann_state ::
  "('h, 'w, 'lb, 'b) library \<Rightarrow> PeriodicSystem \<Rightarrow> PeriodicSystemConfig \<Rightarrow> real \<Rightarrow> world
   \<Rightarrow> error + (('b, complex list) basis_data \<times> world)" where
  "get_random_boltzmann_state lib system config temperature w =
     (case get_hamiltonian lib system config w of Inl e \<Rightarrow> Inl e
      | Inr (hamiltonian, w1) \<Rightarrow>
     (if boltzmann_not_finite temperature (data hamiltonian) then Inl NotFinite
      else
        let boltzmann_distribution =
              map (\<lambda>e. exp (- e / (2 * boltzmann_k * temperature))) (data hamiltonian) in
        case random_rand (length (data hamiltonian)) w1 of (r, w2) \<Rightarrow>
       (let random_phase = map (\<lambda>x. exp (2 * \<i> * complex_of_real pi * complex_of_real x)) r;
            normalization = sqrt (sum_list (map (\<lambda>x. x\<^sup>2) boltzmann_distribution));
            boltzmann_state =
              map2 (\<lambda>b p. complex_of_real b * p / complex_of_real normalization)
                boltzmann_distribution random_phase
        in Inr (\<lparr>basis = fst (basis hamiltonian), data = boltzmann_state\<rparr>, w2))))"

text \<open>\<open>get_boltzmann_state\<close>: the same amplitudes with one phase for all components.\<close>

definition get_boltzmann_state ::
  "('h, 'w, 'lb, 'b) library \<Rightarrow> PeriodicSystem \<Rightarrow> PeriodicSystemConfig \<Rightarrow> real \<Rightarrow> real \<Rightarrow> world
   \<Rightarrow> error + (('b, complex list) basis_data \<times> world)" where
  "get_boltzmann_state lib system config temperature phase w =
     (case get_hamiltonian lib system config w of Inl e \<Rightarrow> Inl e
      | Inr (hamiltonian, w1) \<Rightarrow>
     (if boltzmann_not_finite temperature (data hamiltonian) then Inl NotFinite
      else
        let boltzmann_distribution =
              map (\<lambda>e. exp (- e / (2 * boltzmann_k * temperature))) (data hamiltonian);
            normalization = sqrt (sum_list (map (\<lambda>x. x\<^sup>2) boltzmann_distribution));
            boltzmann_state =
              map (\<lambda>b. complex_of_real b * exp (\<i> * complex_of_real phase)
                         / complex_of_real normalization)
                boltzmann_distribution
        in Inr (\<lparr>basis = fst (basis hamiltonian), data = boltzmann_state\<rparr>, w1)))"

text \<open>
  The loop of \<open>get_average_boltzmann_isf\<close>, \<open>m\<close> rounds to go: each round draws a state,
  computes its ISF with the given Hamiltonian and operator and adds it to \<open>isf_data\<close>.
  Adding arrays of different lengths in place raises \<open>ValueError\<close>.
\<close>

fun average_loop ::
  "('h, 'w, 'lb, 'b) library \<Rightarrow> PeriodicSystem \<Rightarrow> PeriodicSystemConfig
   \<Rightarrow> ('b \<times> 'b, real list) basis_data \<Rightarrow> ('b \<times> 'b, complex list list) basis_data
   \<Rightarrow> time_basis \<Rightarrow> real \<Rightarrow> nat \<Rightarrow> complex list \<Rightarrow> world
   \<Rightarrow> error + (complex list \<times> world)" where
  "average_loop lib system config hamiltonian operator times' temperature 0 isf_data w =
     Inr (isf_data, w)"
| "average_loop lib system config hamiltonian operator times' temperature (Suc m) isf_data w =
     (case get_random_boltzmann_state lib system config temperature w of Inl e \<Rightarrow> Inl e
      | Inr (state, w1) \<Rightarrow>
     (case get_isf_from_hamiltonian lib hamiltonian operator state times' of Inl e \<Rightarrow> Inl e
      | Inr isf \<Rightarrow>
     (if length (data isf) \<noteq> length isf_data then Inl ValueError
      else average_loop lib system config hamiltonian operator times' temperature m
             (map2 (+) isf_data (data isf)) w1)))"

text \<open>
  \<open>get_average_boltzmann_isf\<close>. \<open>range(n)\<close> is empty for \<open>n \<le> 0\<close>. Dividing a non-empty
  array by \<open>n = 0\<close> gives \<open>nan\<close> entries.
\<close>

definition get_average_boltzmann_isf ::
  "('h, 'w, 'lb, 'b) library \<Rightarrow> PeriodicSystem \<Rightarrow> PeriodicSystemConfig \<Rightarrow> time_basis
   \<Rightarrow> int list \<Rightarrow> real \<Rightarrow> int \<Rightarrow> world
   \<Rightarrow> error + ((time_basis, complex list) basis_data \<times> world)" where
  "get_average_boltzmann_isf lib system config times' direction temperature n w =
     (let isf_data = replicate (length times') 0 in
      case get_hamiltonian lib system config w of Inl e \<Rightarrow> Inl e
      | Inr (hamiltonian, w1) \<Rightarrow>
     (case build_periodic_x_operator lib (fst (basis hamiltonian)) direction w1 of
        (operator, w2) \<Rightarrow>
     (case average_loop lib system config hamiltonian operator times' temperature (nat n)
             isf_data w2 of
        Inl e \<Rightarrow> Inl e
      | Inr (isf_data', w3) \<Rightarrow>
     (if n = 0 \<and> isf_data' \<noteq> [] then Inl NotFinite
      else Inr (\<lparr>basis = times', data = map (\<lambda>z. z / complex_of_int n) isf_data'\<rparr>, w3)))))"

section \<open>Notions of the specification\<close>

text \<open>The norm of an amplitude vector: the root of the sum of the squared moduli.\<close>

definition state_norm :: "complex list \<Rightarrow> real" where
  "state_norm v = sqrt (sum_list (map (\<lambda>z. (cmod z)\<^sup>2) v))"


text \<open>
  The ISF sequences of \<open>m\<close> samples, in the words of the specification: each sample is
  a state drawn with \<open>get_random_boltzmann_state\<close>, its ISF is computed with
  \<open>get_isf_from_hamiltonian\<close> from the given Hamiltonian and operator.
\<close>

fun sample_isfs ::
  "('h, 'w, 'lb, 'b) library \<Rightarrow> PeriodicSystem \<Rightarrow> PeriodicSystemConfig
   \<Rightarrow> ('b \<times> 'b, real list) basis_data \<Rightarrow> ('b \<times> 'b, complex list list) basis_data
   \<Rightarrow> time_basis \<Rightarrow> real \<Rightarrow> nat \<Rightarrow> world
   \<Rightarrow> error + (complex list list \<times> world)" where
  "sample_isfs lib system config hamiltonian operator times' temperature 0 w = Inr ([], w)"
| "sample_isfs lib system config hamiltonian operator times' temperature (Suc m) w =
     (case get_random_boltzmann_state lib system config temperature w of Inl e \<Rightarrow> Inl e
      | Inr (state, w1) \<Rightarrow>
     (case get_isf_from_hamiltonian lib hamiltonian operator state times' of Inl e \<Rightarrow> Inl e
      | Inr isf \<Rightarrow>
     (case sample_isfs lib system config hamiltonian operator times' temperature m w1 of
        Inl e \<Rightarrow> Inl e
      | Inr (rest, w2) \<Rightarrow> Inr (data isf # rest, w2))))"

text \<open>The component-wise arithmetic mean of sequences of \<open>len\<close> values.\<close>

definition componentwise_mean :: "nat \<Rightarrow> complex list list \<Rightarrow> complex list" where
  "componentwise_mean len seqs =
     map (\<lambda>j. sum_list (map (\<lambda>s. s ! j) seqs) / of_nat (length seqs)) [0..<len]"

section \<open>A small library instance\<close>

text \<open>
  An instance of the library parameters on which the functions can be evaluated: the
  conversions leave the data as they are, the wavepacket generator calls the Hamiltonian
  generator at the Bloch fraction zero, the diagonal Hamiltonian has the two eigenvalues
  \<open>0\<close> and \<open>1\<close>, and the scattering operator exchanges the two components.
\<close>

definition example_library :: "(unit, unit, unit, unit) library" where
  "example_library =
     \<lparr>convert_potential_data = (\<lambda>src tgt v. v),
      stacked_basis_as_fundamental_momentum_basis =
        map (\<lambda>a. FundamentalTransformedPositionBasis (delta_x a) (fundamental_n a)),
      stacked_basis_as_fundamental_position_basis =
        map (\<lambda>a. FundamentalPositionBasis (delta_x a) (fundamental_n a)),
      total_surface_hamiltonian = (\<lambda>potential m bloch_fraction. ()),
      generate_wavepacket =
        (\<lambda>generator bands list_basis.
           case generator [0] of Inl e \<Rightarrow> Inl e | Inr h \<Rightarrow> Inr ()),
      fundamental_stacked_basis_from_shape = (\<lambda>s. ()),
      get_full_bloch_hamiltonian = (\<lambda>wavefunctions. \<lparr>basis = ((), ()), data = [0, 1]\<rparr>),
      convert_state_vector_to_basis = (\<lambda>state b. Inr state),
      get_periodic_x_operator = (\<lambda>b direction. \<lparr>basis = (b, b), data = [[0, 1], [1, 0]]\<rparr>)\<rparr>"

definition example_system :: PeriodicSystem where
  "example_system =
     \<lparr>system_id = ''HNi'', barrier_energy = 1, lattice_constant = 2, mass = 1\<rparr>"

definition example_config :: PeriodicSystemConfig where
  "example_config = \<lparr>shape = [3], resolution = [3], n_bands = 2\<rparr>"

definition example_world :: world where
  "example_world = \<lparr>random_source = (\<lambda>i. 0), hamiltonian_builds = 0, operator_builds = 0\<rparr>"

text \<open>
  The same library with a Hamiltonian of the eigenvalues \<open>1e-20\<close> and \<open>2e-20\<close>, energies
  in joules of the size of the barrier energy of the module's systems.
\<close>

definition cold_library :: "(unit, unit, unit, unit) library" where
  "cold_library =
     example_library\<lparr>get_full_bloch_hamiltonian :=
                       (\<lambda>wavefunctions. \<lparr>basis = ((), ()),
                                           data = [1 / 10 ^ 20, 2 / 10 ^ 20]\<rparr>)\<rparr>"

text \<open>
  A library with two bases, \<open>True\<close> for the eigenbasis of the Hamiltonian and \<open>False\<close>
  for the same vectors in the other order: converting between them reverses the two
  amplitudes and keeps the norm. The scattering operator is diagonal with the entries
  \<open>1\<close> and \<open>-1\<close>.
\<close>

definition reordering_library :: "(unit, unit, unit, bool) library" where
  "reordering_library =
     \<lparr>convert_potential_data = (\<lambda>src tgt v. v),
      stacked_basis_as_fundamental_momentum_basis =
        map (\<lambda>a. FundamentalTransformedPositionBasis (delta_x a) (fundamental_n a)),
      stacked_basis_as_fundamental_position_basis =
        map (\<lambda>a. FundamentalPositionBasis (delta_x a) (fundamental_n a)),
      total_surface_hamiltonian = (\<lambda>potential m bloch_fraction. ()),
      generate_wavepacket =
        (\<lambda>generator bands list_basis.
           case generator [0] of Inl e \<Rightarrow> Inl e | Inr h \<Rightarrow> Inr ()),
      fundamental_stacked_basis_from_shape = (\<lambda>s. ()),
      get_full_bloch_hamiltonian =
        (\<lambda>wavefunctions. \<lparr>basis = (True, True), data = [0, 1]\<rparr>),
      convert_state_vector_to_basis =
        (\<lambda>state b. if basis state = b then Inr state
                   else Inr \<lparr>basis = b, data = rev (data state)\<rparr>),
      get_periodic_x_operator =
        (\<lambda>b direction. \<lparr>basis = (b, b), data = [[1, 0], [0, - 1]]\<rparr>)\<rparr>"

text \<open>A state of norm one with two amplitudes.\<close>

definition example_state :: "(unit, complex list) basis_data" where
  "example_state = \<lparr>basis = (), data = [3 / 5, 4 / 5 * \<i>]\<rparr>"

section \<open>Properties of the potential\<close>

text \<open>
  C7. For every \<open>PeriodicSystem\<close>, \<open>get_potential\<close> returns a potential over one basis axis
  of three Fourier components and of width \<open>sqrt 3 * lattice_constant / 2\<close>. Its three
  amplitudes are \<open>2\<close>, \<open>-1\<close> and \<open>-1\<close> times \<open>barrier_energy\<close>, each scaled by the same
  factor \<open>sqrt 3 / 4\<close>, and they add up to zero.
\<close>

theorem get_potential_three_harmonics:
  "basis (get_potential system) =
     [FundamentalTransformedPositionBasis1d [sqrt 3 * lattice_constant system / 2] 3]
   \<and> data (get_potential system) =
     map (\<lambda>c. sqrt 3 / 4 * (c * barrier_energy system)) [2, -1, -1]
   \<and> length (data (get_potential system)) = 3
   \<and> sum_list (data (get_potential system)) = 0"
  by (simp add: get_potential_def Let_def)

lemma float_overflow_bound_gt_one: "1 < float_overflow_bound"
proof -
  have "(2::real) ^ 1024 = 2 ^ 970 * 2 ^ 54"
    by (simp only: power_add [symmetric]) simp
  then have "float_overflow_bound = 2 ^ 970 * (2 ^ 54 - 1)"
    by (simp only: float_overflow_bound_def right_diff_distrib mult_1_right)
  moreover have "(1::real) \<le> 2 ^ 970" by (rule one_le_power) simp
  moreover have "(1::real) < 2 ^ 54 - 1" by simp
  ultimately show ?thesis
    by (metis less_le_trans mult_le_cancel_right1 mult.commute less_imp_le zero_less_one
        less_trans mult_less_cancel_left1 not_less)
qed

lemma sqrt_ratio_same: "n \<noteq> 0 \<Longrightarrow> sqrt_ratio n n = Inr 1"
  using float_overflow_bound_gt_one by (simp add: sqrt_ratio_def)

text \<open>
  C8. For every \<open>PeriodicSystem\<close>, \<open>get_interpolated_potential\<close> at resolution \<open>3\<close>
  returns the amplitudes of \<open>get_potential\<close>: the rescaling factor \<open>sqrt (3 / 3)\<close> is \<open>1\<close>,
  provided the library's conversion from the three-component momentum basis of
  fundamental size three into its fundamental momentum basis leaves the data unchanged.
\<close>

theorem get_interpolated_potential_matching_resolution:
  assumes "\<And>d v. convert_potential_data lib [TransformedPositionBasis1d d 3 3]
             (stacked_basis_as_fundamental_momentum_basis lib [TransformedPositionBasis1d d 3 3]) v
           = v"
  shows "sqrt_ratio 3 3 = Inr 1
       \<and> (\<exists>p. get_interpolated_potential lib system [3] = Inr p
              \<and> data p = map complex_of_real (data (get_potential system)))"
  using assms
  by (simp add: get_interpolated_potential_def get_potential_def index0_def sqrt_ratio_same
      convert_potential_to_basis_def Let_def)

theorem get_interpolated_potential_matching_resolution_witness:
  "sqrt_ratio 3 3 = Inr 1
   \<and> (\<exists>p. get_interpolated_potential example_library example_system [3] = Inr p
          \<and> data p = map complex_of_real (data (get_potential example_system)))"
proof -
  have h: "\<And>d v. convert_potential_data example_library [TransformedPositionBasis1d d 3 3]
             (stacked_basis_as_fundamental_momentum_basis example_library
                [TransformedPositionBasis1d d 3 3]) v = v"
    by (simp add: example_library_def)
  show ?thesis
    using get_interpolated_potential_matching_resolution [of example_library, OF h] .
qed

section \<open>Properties of the configuration and of the Hamiltonian\<close>




lemma get_hamiltonian_eq:
  "get_hamiltonian lib system config w =
     (case get_bloch_wavefunctions lib system config of Inl e \<Rightarrow> Inl e
      | Inr wfs \<Rightarrow> Inr (get_full_bloch_hamiltonian lib wfs,
                       w\<lparr>hamiltonian_builds := hamiltonian_builds w + 1\<rparr>))"
  by (simp add: get_hamiltonian_def Let_def split: sum.splits)



text \<open>
  C10. For every system, shape and resolution, \<open>_get_full_hamiltonian\<close> without a Bloch
  fraction returns what it returns for the Bloch fraction \<open>[0]\<close>, errors included.
\<close>

theorem get_full_hamiltonian_default_bloch_fraction:
  "get_full_hamiltonian lib system shape' resolution' None
   = get_full_hamiltonian lib system shape' resolution' (Some [0])"
  by (simp add: get_full_hamiltonian_def)

section \<open>Properties of the thermal states\<close>

lemma cmod_random_phase: "cmod (exp (2 * \<i> * complex_of_real pi * complex_of_real x)) = 1"
  by (simp add: norm_exp_eq_Re)

lemma cmod_fixed_phase: "cmod (exp (\<i> * complex_of_real x)) = 1"
  by (simp add: norm_exp_eq_Re)

lemma map_cmod_map2_phase:
  "length ps = length ds \<Longrightarrow> list_all (\<lambda>p. cmod p = 1) ps \<Longrightarrow>
   map cmod (map2 (\<lambda>b p. complex_of_real b * p / complex_of_real N) ds ps)
   = map (\<lambda>b. \<bar>b\<bar> / \<bar>N\<bar>) ds"
  by (induction ps ds rule: list_induct2) (auto simp: norm_mult norm_divide)

lemma map_cmod_map_phase:
  "cmod q = 1 \<Longrightarrow>
   map cmod (map (\<lambda>b. complex_of_real b * q / complex_of_real N) ds)
   = map (\<lambda>b. \<bar>b\<bar> / \<bar>N\<bar>) ds"
  by (induction ds) (auto simp: norm_mult norm_divide)

lemma sum_sq_nonneg: "0 \<le> sum_list (map (\<lambda>x. x\<^sup>2) ds)" for ds :: "real list"
  by (rule sum_list_nonneg) auto

lemma sum_sq_pos: 
  fixes ds :: "real list"
  assumes "ds \<noteq> []" "list_all (\<lambda>d. 0 < d) ds"
  shows "0 < sum_list (map (\<lambda>x. x\<^sup>2) ds)"
proof (cases ds)
  case Nil with assms show ?thesis by simp
next
  case (Cons a as)
  with assms have "0 < a\<^sup>2" by simp
  moreover have "0 \<le> sum_list (map (\<lambda>x. x\<^sup>2) as)" by (rule sum_sq_nonneg)
  ultimately have "0 < a\<^sup>2 + sum_list (map (\<lambda>x. x\<^sup>2) as)" by (rule add_pos_nonneg)
  then show ?thesis using Cons by simp
qed

lemma sum_list_map_divide:
  fixes f :: "'a \<Rightarrow> real"
  shows "sum_list (map (\<lambda>x. f x / c) xs) = sum_list (map f xs) / c"
  by (induction xs) (simp_all add: add_divide_distrib)

lemma normalised_norm:
  fixes ds :: "real list"
  assumes "0 < sum_list (map (\<lambda>x. x\<^sup>2) ds)"
  shows "sqrt (sum_list (map (\<lambda>b. (\<bar>b\<bar> / \<bar>sqrt (sum_list (map (\<lambda>x. x\<^sup>2) ds))\<bar>)\<^sup>2) ds)) = 1"
proof -
  let ?S = "sum_list (map (\<lambda>x. x\<^sup>2) ds)"
  have "sum_list (map (\<lambda>b. (\<bar>b\<bar> / \<bar>sqrt ?S\<bar>)\<^sup>2) ds) = sum_list (map (\<lambda>b. b\<^sup>2 / ?S) ds)"
    using assms by (simp add: power_divide)
  also have "\<dots> = ?S / ?S"
    by (simp add: sum_list_map_divide) 
  finally show ?thesis using assms by simp
qed

lemma state_norm_map_cmod: "state_norm v = sqrt (sum_list (map (\<lambda>x. x\<^sup>2) (map cmod v)))"
  by (simp add: state_norm_def comp_def)

lemma boltzmann_sq: "(exp (- e / (2 * c)))\<^sup>2 = exp (- e / c)" for e c :: real
proof -
  have "(exp (- e / (2 * c)))\<^sup>2 = exp (- e / (2 * c) + - e / (2 * c))"
    unfolding power2_eq_square by (rule exp_add [symmetric])
  also have "- e / (2 * c) + - e / (2 * c) = - e / c" by (simp add: field_simps)
  finally show ?thesis .
qed

lemma boltzmann_amp: "exp (- e / (2 * c)) = sqrt (exp (- e / c))" for e c :: real
  by (metis boltzmann_sq exp_ge_zero real_sqrt_unique)

lemma sum_boltzmann_sq:
  "sum_list (map (\<lambda>x. x\<^sup>2) (map (\<lambda>e. exp (- e / (2 * c))) es))
   = sum_list (map (\<lambda>e. exp (- e / c)) es)" for c :: real
  unfolding map_map comp_def boltzmann_sq ..

lemma boltzmann_k_pos: "0 < boltzmann_k"
  by (simp add: boltzmann_k_def)

lemma length_random_rand: "length (fst (random_rand m w)) = m"
  by (simp add: random_rand_def)

lemma random_phases_unit:
  "list_all (\<lambda>p. cmod p = 1)
     (map (\<lambda>x. exp (2 * \<i> * complex_of_real pi * complex_of_real x)) r)"
  by (simp add: list_all_iff norm_exp_eq_Re)

lemma random_state_data:
  assumes "get_random_boltzmann_state lib system config temperature w = Inr (st, w2)"
  shows "\<exists>hamiltonian w1. get_hamiltonian lib system config w = Inr (hamiltonian, w1)
          \<and> \<not> boltzmann_not_finite temperature (data hamiltonian)
          \<and> w2 = snd (random_rand (length (data hamiltonian)) w1)
          \<and> basis st = fst (basis hamiltonian)
          \<and> data st
            = map2 (\<lambda>b p. complex_of_real b * p / complex_of_real
                     (sqrt (sum_list (map (\<lambda>x. x\<^sup>2)
                        (map (\<lambda>e. exp (- e / (2 * boltzmann_k * temperature)))
                           (data hamiltonian))))))
                (map (\<lambda>e. exp (- e / (2 * boltzmann_k * temperature))) (data hamiltonian))
                (map (\<lambda>x. exp (2 * \<i> * complex_of_real pi * complex_of_real x))
                   (fst (random_rand (length (data hamiltonian)) w1)))"
  using assms
  by (auto simp: get_random_boltzmann_state_def Let_def
      split: sum.splits if_splits prod.splits)

lemma fixed_state_data:
  assumes "get_boltzmann_state lib system config temperature phase w = Inr (st, w2)"
  shows "\<exists>hamiltonian. get_hamiltonian lib system config w = Inr (hamiltonian, w2)
          \<and> \<not> boltzmann_not_finite temperature (data hamiltonian)
          \<and> basis st = fst (basis hamiltonian)
          \<and> data st
            = map (\<lambda>b. complex_of_real b * exp (\<i> * complex_of_real phase) / complex_of_real
                     (sqrt (sum_list (map (\<lambda>x. x\<^sup>2)
                        (map (\<lambda>e. exp (- e / (2 * boltzmann_k * temperature)))
                           (data hamiltonian))))))
                (map (\<lambda>e. exp (- e / (2 * boltzmann_k * temperature))) (data hamiltonian))"
  using assms
  by (auto simp: get_boltzmann_state_def Let_def
      split: sum.splits if_splits prod.splits)

lemma random_state_magnitudes:
  assumes "get_random_boltzmann_state lib system config temperature w = Inr (st, w2)"
  shows "\<exists>hamiltonian w1. get_hamiltonian lib system config w = Inr (hamiltonian, w1)
          \<and> \<not> boltzmann_not_finite temperature (data hamiltonian)
          \<and> map cmod (data st)
            = map (\<lambda>b. \<bar>b\<bar> / \<bar>sqrt (sum_list (map (\<lambda>x. x\<^sup>2)
                     (map (\<lambda>e. exp (- e / (2 * boltzmann_k * temperature))) (data hamiltonian))))\<bar>)
                (map (\<lambda>e. exp (- e / (2 * boltzmann_k * temperature))) (data hamiltonian))"
proof -
  from random_state_data [OF assms] obtain hamiltonian w1 where
    h: "get_hamiltonian lib system config w = Inr (hamiltonian, w1)"
       "\<not> boltzmann_not_finite temperature (data hamiltonian)"
    and d: "data st
            = map2 (\<lambda>b p. complex_of_real b * p / complex_of_real
                     (sqrt (sum_list (map (\<lambda>x. x\<^sup>2)
                        (map (\<lambda>e. exp (- e / (2 * boltzmann_k * temperature)))
                           (data hamiltonian))))))
                (map (\<lambda>e. exp (- e / (2 * boltzmann_k * temperature))) (data hamiltonian))
                (map (\<lambda>x. exp (2 * \<i> * complex_of_real pi * complex_of_real x))
                   (fst (random_rand (length (data hamiltonian)) w1)))"
    by blast
  have "map cmod (data st)
        = map (\<lambda>b. \<bar>b\<bar> / \<bar>sqrt (sum_list (map (\<lambda>x. x\<^sup>2)
                     (map (\<lambda>e. exp (- e / (2 * boltzmann_k * temperature))) (data hamiltonian))))\<bar>)
                (map (\<lambda>e. exp (- e / (2 * boltzmann_k * temperature))) (data hamiltonian))"
    unfolding d
    by (rule map_cmod_map2_phase) (simp_all only: length_map length_random_rand random_phases_unit)
  with h show ?thesis by blast
qed

lemma fixed_state_magnitudes:
  assumes "get_boltzmann_state lib system config temperature phase w = Inr (st, w2)"
  shows "\<exists>hamiltonian. get_hamiltonian lib system config w = Inr (hamiltonian, w2)
          \<and> \<not> boltzmann_not_finite temperature (data hamiltonian)
          \<and> map cmod (data st)
            = map (\<lambda>b. \<bar>b\<bar> / \<bar>sqrt (sum_list (map (\<lambda>x. x\<^sup>2)
                     (map (\<lambda>e. exp (- e / (2 * boltzmann_k * temperature))) (data hamiltonian))))\<bar>)
                (map (\<lambda>e. exp (- e / (2 * boltzmann_k * temperature))) (data hamiltonian))"
proof -
  from fixed_state_data [OF assms] obtain hamiltonian where
    h: "get_hamiltonian lib system config w = Inr (hamiltonian, w2)"
       "\<not> boltzmann_not_finite temperature (data hamiltonian)"
    and d: "data st
            = map (\<lambda>b. complex_of_real b * exp (\<i> * complex_of_real phase) / complex_of_real
                     (sqrt (sum_list (map (\<lambda>x. x\<^sup>2)
                        (map (\<lambda>e. exp (- e / (2 * boltzmann_k * temperature)))
                           (data hamiltonian))))))
                (map (\<lambda>e. exp (- e / (2 * boltzmann_k * temperature))) (data hamiltonian))"
    by blast
  have "map cmod (data st)
        = map (\<lambda>b. \<bar>b\<bar> / \<bar>sqrt (sum_list (map (\<lambda>x. x\<^sup>2)
                     (map (\<lambda>e. exp (- e / (2 * boltzmann_k * temperature))) (data hamiltonian))))\<bar>)
                (map (\<lambda>e. exp (- e / (2 * boltzmann_k * temperature))) (data hamiltonian))"
    unfolding d by (rule map_cmod_map_phase) (rule cmod_fixed_phase)
  with h show ?thesis by blast
qed

lemma random_state_returns:
  assumes "get_hamiltonian lib system config w = Inr (hamiltonian, w1)"
    and "\<not> boltzmann_not_finite temperature (data hamiltonian)"
  shows "\<exists>st w2. get_random_boltzmann_state lib system config temperature w = Inr (st, w2)"
  using assms
  by (auto simp: get_random_boltzmann_state_def Let_def split: prod.splits)

lemma fixed_state_returns:
  assumes "get_hamiltonian lib system config w = Inr (hamiltonian, w1)"
    and "\<not> boltzmann_not_finite temperature (data hamiltonian)"
  shows "\<exists>st w2. get_boltzmann_state lib system config temperature phase w = Inr (st, w2)"
  using assms
  by (auto simp: get_boltzmann_state_def Let_def split: prod.splits)

lemma get_hamiltonian_any_world:
  assumes "get_hamiltonian lib system config w = Inr (hamiltonian, w1)"
  shows "get_hamiltonian lib system config w'
         = Inr (hamiltonian, w'\<lparr>hamiltonian_builds := hamiltonian_builds w' + 1\<rparr>)"
  using assms by (auto simp: get_hamiltonian_eq split: sum.splits)

lemma get_hamiltonian_error_any_world:
  assumes "get_hamiltonian lib system config w = Inl e"
  shows "get_hamiltonian lib system config w' = Inl e"
  using assms by (auto simp: get_hamiltonian_eq split: sum.splits)

lemma normalised_magnitudes:
  fixes c :: real
  assumes "es \<noteq> []"
  shows "map (\<lambda>b. \<bar>b\<bar> / \<bar>sqrt (sum_list (map (\<lambda>x. x\<^sup>2) (map (\<lambda>e. exp (- e / (2 * c))) es)))\<bar>)
           (map (\<lambda>e. exp (- e / (2 * c))) es)
         = map (\<lambda>e. sqrt (exp (- e / c)) / sqrt (sum_list (map (\<lambda>e. exp (- e / c)) es))) es"
proof -
  have a: "\<bar>exp (- e / (2 * c))\<bar> = sqrt (exp (- e / c))" for e
    using boltzmann_amp [of e c] by simp
  have "0 \<le> sum_list (map (\<lambda>e. exp (- e / c)) es)"
    by (rule sum_list_nonneg) auto
  then have b: "\<bar>sqrt (sum_list (map (\<lambda>e. exp (- e / c)) es))\<bar>
                = sqrt (sum_list (map (\<lambda>e. exp (- e / c)) es))"
    by simp
  show ?thesis
    unfolding map_map comp_def a boltzmann_sq b ..
qed

lemma boltzmann_norm:
  fixes c :: real
  assumes "es \<noteq> []"
    and "map cmod v = map (\<lambda>b. \<bar>b\<bar> / \<bar>sqrt (sum_list (map (\<lambda>x. x\<^sup>2)
                         (map (\<lambda>e. exp (- e / (2 * c))) es)))\<bar>)
                       (map (\<lambda>e. exp (- e / (2 * c))) es)"
  shows "state_norm v = 1"
proof -
  have "list_all (\<lambda>d. 0 < d) (map (\<lambda>e. exp (- e / (2 * c))) es)"
    by (simp add: list_all_iff)
  with assms(1) have "0 < sum_list (map (\<lambda>x. x\<^sup>2) (map (\<lambda>e. exp (- e / (2 * c))) es))"
    by (intro sum_sq_pos) simp_all
  from normalised_norm [OF this] show ?thesis
    unfolding state_norm_map_cmod assms(2) by (simp only: map_map comp_def)
qed

text \<open>
  Within the range of the floats the two functions do what their formula says. For a
  Hamiltonian with at least one eigenvalue, a temperature above zero and exponents
  \<open>E / (2 * k * T)\<close> of magnitude at most \<open>300\<close>, \<open>get_random_boltzmann_state\<close> and
  \<open>get_boltzmann_state\<close> return a state of norm one whose component \<open>i\<close> has the
  magnitude \<open>sqrt (exp (- E i / (k * T)))\<close> divided by the root of the sum of all
  \<open>exp (- E j / (k * T))\<close>.
\<close>

lemma boltzmann_states_unit_norm_in_range:
  assumes "0 < temperature"
    and "get_hamiltonian lib system config w = Inr (hamiltonian, w1)"
    and "data hamiltonian \<noteq> []"
    and "list_all (\<lambda>e. \<bar>e / (2 * boltzmann_k * temperature)\<bar> \<le> 300) (data hamiltonian)"
  shows "\<exists>st w2 st' w3.
           get_random_boltzmann_state lib system config temperature w = Inr (st, w2)
         \<and> get_boltzmann_state lib system config temperature phase w = Inr (st', w3)
         \<and> state_norm (data st) = 1 \<and> state_norm (data st') = 1
         \<and> map cmod (data st)
           = map (\<lambda>e. sqrt (exp (- e / (boltzmann_k * temperature)))
                      / sqrt (sum_list (map (\<lambda>e. exp (- e / (boltzmann_k * temperature)))
                                (data hamiltonian))))
               (data hamiltonian)
         \<and> map cmod (data st') = map cmod (data st)"
proof -
  let ?c = "boltzmann_k * temperature"
  let ?m = "map (\<lambda>b. \<bar>b\<bar> / \<bar>sqrt (sum_list (map (\<lambda>x. x\<^sup>2)
                         (map (\<lambda>e. exp (- e / (2 * ?c))) (data hamiltonian))))\<bar>)
              (map (\<lambda>e. exp (- e / (2 * ?c))) (data hamiltonian))"
  from assms(3) obtain e es where d: "data hamiltonian = e # es"
    by (cases "data hamiltonian") simp_all
  with assms(4) have "\<bar>e / (2 * boltzmann_k * temperature)\<bar> \<le> 300" by simp
  then have "\<not> - (e / (2 * boltzmann_k * temperature)) < - 373" by linarith
  then have "\<not> - e / (2 * boltzmann_k * temperature) < - 373" by simp
  with assms(1) d have t: "\<not> boltzmann_not_finite temperature (data hamiltonian)"
    by (simp add: boltzmann_not_finite_def)
  from random_state_returns [OF assms(2) t] obtain st w2 where
    r: "get_random_boltzmann_state lib system config temperature w = Inr (st, w2)" by blast
  from fixed_state_returns [OF assms(2) t] obtain st' w3 where
    f: "get_boltzmann_state lib system config temperature phase w = Inr (st', w3)" by blast
  from random_state_magnitudes [OF r] assms(2) have mr: "map cmod (data st) = ?m"
    by (auto simp: mult.assoc)
  from fixed_state_magnitudes [OF f] assms(2) have mf: "map cmod (data st') = ?m"
    by (auto simp: mult.assoc)
  have nr: "state_norm (data st) = 1" using assms(3) mr by (rule boltzmann_norm)
  have nf: "state_norm (data st') = 1" using assms(3) mf by (rule boltzmann_norm)
  have "map cmod (data st)
        = map (\<lambda>e. sqrt (exp (- e / ?c)) / sqrt (sum_list (map (\<lambda>e. exp (- e / ?c))
                 (data hamiltonian)))) (data hamiltonian)"
    unfolding mr using assms(3) by (rule normalised_magnitudes)
  then show ?thesis using r f nr nf mr mf by auto
qed

lemma example_hamiltonian:
  "get_hamiltonian example_library example_system example_config w
   = Inr (\<lparr>basis = ((), ()), data = [0, 1]\<rparr>,
          w\<lparr>hamiltonian_builds := hamiltonian_builds w + 1\<rparr>)"
  by (simp add: get_hamiltonian_def get_bloch_wavefunctions_def get_full_hamiltonian_def
      get_extended_interpolated_potential_def get_interpolated_potential_def get_potential_def
      index0_def sqrt_ratio_same convert_potential_to_basis_def example_library_def
      example_system_def example_config_def Let_def)

lemma cold_hamiltonian:
  "get_hamiltonian cold_library example_system example_config w
   = Inr (\<lparr>basis = ((), ()), data = [1 / 10 ^ 20, 2 / 10 ^ 20]\<rparr>,
          w\<lparr>hamiltonian_builds := hamiltonian_builds w + 1\<rparr>)"
  by (simp add: get_hamiltonian_def get_bloch_wavefunctions_def get_full_hamiltonian_def
      get_extended_interpolated_potential_def get_interpolated_potential_def get_potential_def
      index0_def sqrt_ratio_same convert_potential_to_basis_def example_library_def
      cold_library_def example_system_def example_config_def Let_def)

lemma cold_not_finite:
  "boltzmann_not_finite (1 / 10) [1 / 10 ^ 20, 2 / 10 ^ 20]"
  by (simp add: boltzmann_not_finite_def boltzmann_k_def)

text \<open>
  C5 fails on the code at a low temperature. With the eigenvalues \<open>1e-20\<close> and \<open>2e-20\<close>
  joules and the temperature \<open>0.1\<close> kelvin, the exponents are about \<open>- 3621\<close> and
  \<open>- 7243\<close>: every factor underflows, the normalization is \<open>0.0\<close>, and both functions
  return a state of \<open>nan\<close> components where the claim promises a state of norm one.
\<close>

theorem boltzmann_states_not_finite_when_cold:
  "get_random_boltzmann_state cold_library example_system example_config (1 / 10)
     example_world = Inl NotFinite
   \<and> get_boltzmann_state cold_library example_system example_config (1 / 10) 0
     example_world = Inl NotFinite"
  unfolding get_random_boltzmann_state_def get_boltzmann_state_def cold_hamiltonian
  using cold_not_finite by simp

text \<open>
  C9. For every system, configuration and temperature, two runs of
  \<open>get_random_boltzmann_state\<close>, from any two states of the random generator, end alike:
  with the same error, or with states of equal component magnitudes; and these are the
  magnitudes of the state \<open>get_boltzmann_state\<close> returns for any phase.
\<close>

theorem boltzmann_magnitudes_ignore_phases:
  "map_sum id (\<lambda>r. map cmod (data (fst r)))
     (get_random_boltzmann_state lib system config temperature w)
   = map_sum id (\<lambda>r. map cmod (data (fst r)))
       (get_random_boltzmann_state lib system config temperature w')
   \<and> map_sum id (\<lambda>r. map cmod (data (fst r)))
       (get_random_boltzmann_state lib system config temperature w)
   = map_sum id (\<lambda>r. map cmod (data (fst r)))
       (get_boltzmann_state lib system config temperature phase w'')"
proof (cases "get_hamiltonian lib system config w")
  case (Inl e)
  then have "get_hamiltonian lib system config w' = Inl e"
    "get_hamiltonian lib system config w'' = Inl e"
    by (rule get_hamiltonian_error_any_world)+
  with Inl show ?thesis
    by (simp add: get_random_boltzmann_state_def get_boltzmann_state_def)
next
  case (Inr p)
  obtain hamiltonian w1 where p: "p = (hamiltonian, w1)" by (cases p)
  note h = Inr [unfolded p]
  show ?thesis
  proof (cases "\<not> boltzmann_not_finite temperature (data hamiltonian)")
    case False
    then show ?thesis
      using h get_hamiltonian_any_world [OF h, of w'] get_hamiltonian_any_world [OF h, of w'']
      by (simp add: get_random_boltzmann_state_def get_boltzmann_state_def)
  next
    case True
    from random_state_returns [OF h True] obtain st w2 where
      r: "get_random_boltzmann_state lib system config temperature w = Inr (st, w2)" by blast
    from random_state_returns [OF get_hamiltonian_any_world [OF h, of w'] True]
    obtain st' w2' where
      r': "get_random_boltzmann_state lib system config temperature w' = Inr (st', w2')"
      by blast
    from fixed_state_returns [OF get_hamiltonian_any_world [OF h, of w''] True]
    obtain st'' w2'' where
      f: "get_boltzmann_state lib system config temperature phase w'' = Inr (st'', w2'')"
      by blast
    from random_state_magnitudes [OF r] random_state_magnitudes [OF r']
      fixed_state_magnitudes [OF f] h
      get_hamiltonian_any_world [OF h, of w'] get_hamiltonian_any_world [OF h, of w'']
    have "map cmod (data st) = map cmod (data st')" "map cmod (data st) = map cmod (data st'')"
      by auto
    with r r' f show ?thesis by simp
  qed
qed

section \<open>Properties of the time evolution\<close>

lemma solve_schrodinger_equation_eq:
  assumes "get_hamiltonian lib system config w = Inr (hamiltonian, w1)"
  shows "solve_schrodinger_equation lib system config initial_state times' w
         = (case convert_state_vector_to_basis lib initial_state (fst (basis hamiltonian)) of
              Inl e \<Rightarrow> Inl e
            | Inr converted \<Rightarrow>
                (case solve_schrodinger_equation_diagonal converted times' hamiltonian of
                   Inl e \<Rightarrow> Inl e
                 | Inr states \<Rightarrow> Inr (states, w1)))"
  using assms by (simp add: solve_schrodinger_equation_def split: sum.splits)






text \<open>
  C1. When the Hamiltonian is built, the initial state converts into its eigenbasis and
  has one amplitude per eigenvalue, \<open>solve_schrodinger_equation\<close> returns one state per
  timestamp, in the order of the timestamps, whatever that order is; in the state for
  timestamp \<open>t\<close>, amplitude \<open>i\<close> is the converted initial amplitude \<open>i\<close> times
  \<open>exp (- \<i> * E i * t / hbar)\<close>.
\<close>

theorem solve_schrodinger_equation_phases:
  assumes "get_hamiltonian lib system config w = Inr (hamiltonian, w1)"
    and "convert_state_vector_to_basis lib initial_state (fst (basis hamiltonian))
         = Inr converted"
    and "length (data converted) = length (data hamiltonian)"
  shows "\<exists>states. solve_schrodinger_equation lib system config initial_state times' w
                   = Inr (states, w1)
         \<and> fst (basis states) = times'
         \<and> length (data states) = length times'
         \<and> (\<forall>j<length times'. length (data states ! j) = length (data hamiltonian)
              \<and> (\<forall>i<length (data hamiltonian).
                   data states ! j ! i
                   = data converted ! i
                     * exp (- \<i> * complex_of_real (data hamiltonian ! i)
                            * complex_of_real (times' ! j) / complex_of_real hbar)))"
  using assms
  by (simp add: solve_schrodinger_equation_eq solve_schrodinger_equation_diagonal_def)



theorem solve_schrodinger_equation_phases_witness:
  "get_hamiltonian example_library example_system example_config example_world
   = Inr (\<lparr>basis = ((), ()), data = [0, 1]\<rparr>, example_world\<lparr>hamiltonian_builds := 1\<rparr>)
   \<and> convert_state_vector_to_basis example_library example_state
        (fst (basis \<lparr>basis = ((), ()), data = [0, 1::real]\<rparr>)) = Inr example_state
   \<and> length (data example_state) = length (data \<lparr>basis = ((), ()), data = [0, 1::real]\<rparr>)
   \<and> (\<exists>states. solve_schrodinger_equation example_library example_system example_config
                  example_state [0, 2, 1] example_world
                = Inr (states, example_world\<lparr>hamiltonian_builds := 1\<rparr>)
        \<and> length (data states) = 3
        \<and> data states ! 1 ! 1
          = data example_state ! 1
            * exp (- \<i> * complex_of_real 1 * complex_of_real 2 / complex_of_real hbar))"
proof -
  let ?H = "\<lparr>basis = ((), ()), data = [0, 1::real]\<rparr>"
  have h: "get_hamiltonian example_library example_system example_config example_world
           = Inr (?H, example_world\<lparr>hamiltonian_builds := 1\<rparr>)"
    by (simp add: example_hamiltonian example_world_def)
  have c: "convert_state_vector_to_basis example_library example_state (fst (basis ?H))
           = Inr example_state"
    by (simp add: example_library_def)
  have l: "length (data example_state) = length (data ?H)"
    by (simp add: example_state_def)
  from solve_schrodinger_equation_phases [OF h c l, of "[0, 2, 1]"] obtain states where
    r: "solve_schrodinger_equation example_library example_system example_config
          example_state [0, 2, 1] example_world
        = Inr (states, example_world\<lparr>hamiltonian_builds := 1\<rparr>)"
    and n: "length (data states) = length [0, 2, 1::real]"
    and a: "\<forall>j<length [0, 2, 1::real]. length (data states ! j) = length (data ?H)
              \<and> (\<forall>i<length (data ?H).
                   data states ! j ! i
                   = data example_state ! i
                     * exp (- \<i> * complex_of_real (data ?H ! i)
                            * complex_of_real ([0, 2, 1] ! j) / complex_of_real hbar))"
    by blast
  from a have "data states ! 1 ! 1
          = data example_state ! 1
            * exp (- \<i> * complex_of_real (data ?H ! 1)
                   * complex_of_real ([0, 2, 1] ! 1) / complex_of_real hbar)"
    by simp
  then have "data states ! 1 ! 1
          = data example_state ! 1
            * exp (- \<i> * complex_of_real 1 * complex_of_real 2 / complex_of_real hbar)"
    by simp
  with h c l r n show ?thesis by auto
qed


section \<open>Properties of the intermediate scattering function\<close>




lemma length_mat_vec: "length (mat_vec rows v) = length rows"
  by (simp add: mat_vec_def)














lemma length_isf_from_hamiltonian:
  assumes "get_isf_from_hamiltonian lib hamiltonian operator state times' = Inr isf"
  shows "length (data isf) = length times'"
  using assms
  by (auto simp: get_isf_from_hamiltonian_def solve_schrodinger_equation_diagonal_def
      apply_operator_to_states_def apply_operator_to_state_def
      calculate_inner_products_elementwise_def split: sum.splits if_splits)










lemma reordering_keeps_norm:
  assumes "convert_state_vector_to_basis reordering_library s b = Inr c"
  shows "state_norm (data c) = state_norm (data s)"
proof -
  have "state_norm (rev v) = state_norm v" for v
    by (simp add: state_norm_def rev_map [symmetric])
  with assms show ?thesis
    by (auto simp: reordering_library_def split: if_splits)
qed


section \<open>Properties of the thermal average\<close>

lemma random_state_world:
  assumes "get_random_boltzmann_state lib system config temperature w = Inr (st, w2)"
  shows "hamiltonian_builds w2 = hamiltonian_builds w + 1
       \<and> operator_builds w2 = operator_builds w"
proof -
  from random_state_data [OF assms] obtain hamiltonian w1 where
    h: "get_hamiltonian lib system config w = Inr (hamiltonian, w1)"
    and w2: "w2 = snd (random_rand (length (data hamiltonian)) w1)"
    by blast
  from h have "w1 = w\<lparr>hamiltonian_builds := hamiltonian_builds w + 1\<rparr>"
    by (auto simp: get_hamiltonian_eq split: sum.splits)
  with w2 show ?thesis by (simp add: random_rand_def)
qed

lemma sample_isfs_props:
  "sample_isfs lib system config hamiltonian operator times' temperature m w = Inr (seqs, w')
   \<Longrightarrow> length seqs = m \<and> list_all (\<lambda>s. length s = length times') seqs
     \<and> hamiltonian_builds w' = hamiltonian_builds w + m
     \<and> operator_builds w' = operator_builds w"
proof (induction m arbitrary: w seqs)
  case 0
  then show ?case by simp
next
  case (Suc m)
  from Suc.prems obtain state w1 isf rest where
    r: "get_random_boltzmann_state lib system config temperature w = Inr (state, w1)"
    and i: "get_isf_from_hamiltonian lib hamiltonian operator state times' = Inr isf"
    and s: "sample_isfs lib system config hamiltonian operator times' temperature m w1
            = Inr (rest, w')"
    and q: "seqs = data isf # rest"
    by (auto split: sum.splits)
  from Suc.IH [OF s] random_state_world [OF r] length_isf_from_hamiltonian [OF i] q
  show ?case by simp
qed

lemma average_loop_sum:
  "length acc = length times' \<Longrightarrow>
   average_loop lib system config hamiltonian operator times' temperature m acc w
   = (case sample_isfs lib system config hamiltonian operator times' temperature m w of
        Inl e \<Rightarrow> Inl e
      | Inr (seqs, w') \<Rightarrow>
          Inr (map (\<lambda>j. acc ! j + sum_list (map (\<lambda>s. s ! j) seqs)) [0..<length times'], w'))"
proof (induction m arbitrary: acc w)
  case 0
  have "map ((!) acc) [0..<length acc] = acc" by (rule map_nth)
  with 0 show ?case by simp
next
  case (Suc m)
  show ?case
  proof (cases "get_random_boltzmann_state lib system config temperature w")
    case (Inl e)
    then show ?thesis by simp
  next
    case (Inr p)
    obtain state w1 where p: "p = (state, w1)" by (cases p)
    show ?thesis
    proof (cases "get_isf_from_hamiltonian lib hamiltonian operator state times'")
      case (Inl e)
      with Inr p show ?thesis by simp
    next
      case i: (Inr isf)
      have l: "length (data isf) = length times'"
        using i by (rule length_isf_from_hamiltonian)
      with Suc.prems have l': "length (map2 (+) acc (data isf)) = length times'" by simp
      have "map (\<lambda>j. map2 (+) acc (data isf) ! j + sum_list (map (\<lambda>s. s ! j) rest))
              [0..<length times']
            = map (\<lambda>j. acc ! j + sum_list (map (\<lambda>s. s ! j) (data isf # rest)))
              [0..<length times']" for rest
        using l Suc.prems by (simp add: add.assoc)
      with Inr p i l Suc.prems Suc.IH [OF l'] show ?thesis
        by (simp split: sum.splits)
    qed
  qed
qed

lemma average_boltzmann_isf_eq:
  assumes ham: "get_hamiltonian lib system config w = Inr (hamiltonian, w1)" and n: "0 < n"
  shows "get_average_boltzmann_isf lib system config times' direction temperature n w
         = (case sample_isfs lib system config hamiltonian
                   (get_periodic_x_operator lib (fst (basis hamiltonian)) direction)
                   times' temperature (nat n)
                   (w1\<lparr>operator_builds := operator_builds w1 + 1\<rparr>) of
              Inl e \<Rightarrow> Inl e
            | Inr (seqs, w') \<Rightarrow>
                Inr (\<lparr>basis = times', data = componentwise_mean (length times') seqs\<rparr>, w'))"
proof (cases "sample_isfs lib system config hamiltonian
                   (get_periodic_x_operator lib (fst (basis hamiltonian)) direction)
                   times' temperature (nat n)
                   (w1\<lparr>operator_builds := operator_builds w1 + 1\<rparr>)")
  case (Inl e)
  then show ?thesis
    by (simp add: get_average_boltzmann_isf_def ham build_periodic_x_operator_def
        average_loop_sum)
next
  case (Inr p)
  obtain seqs w' where p: "p = (seqs, w')" by (cases p)
  from sample_isfs_props [OF Inr [unfolded p]] have l: "length seqs = nat n" by simp
  have "map (\<lambda>z. z / complex_of_int n)
          (map (\<lambda>j. replicate (length times') 0 ! j + sum_list (map (\<lambda>s. s ! j) seqs))
             [0..<length times'])
        = componentwise_mean (length times') seqs"
    using n l by (simp add: componentwise_mean_def)
  with Inr p n show ?thesis
    by (simp add: get_average_boltzmann_isf_def ham build_periodic_x_operator_def
        average_loop_sum)
qed

lemma mean_of_one:
  "length s = len \<Longrightarrow> componentwise_mean len [s] = s"
proof -
  assume "length s = len"
  then have "map ((!) s) [0..<len] = s" using map_nth [of s] by simp
  then show ?thesis by (simp add: componentwise_mean_def)
qed

text \<open>
  C4, as the code has it. For a sample count \<open>n\<close> of at least one,
  \<open>get_average_boltzmann_isf\<close> builds the scattering operator once, draws \<open>n\<close> random
  Boltzmann states one after the other, computes the ISF of each from the one Hamiltonian
  and operator it built, and returns the component-wise arithmetic mean of the \<open>n\<close>
  sequences; it fails where a draw or an ISF fails. With \<open>n = 1\<close> the result is the ISF
  of the single sample. \<open>get_hamiltonian\<close> is called \<open>n + 1\<close> times: once by the function
  itself and once by every draw.
\<close>

theorem average_boltzmann_isf_is_mean:
  assumes ham: "get_hamiltonian lib system config w = Inr (hamiltonian, w1)" and n: "0 < n"
  shows "get_average_boltzmann_isf lib system config times' direction temperature n w
         = (case sample_isfs lib system config hamiltonian
                   (get_periodic_x_operator lib (fst (basis hamiltonian)) direction)
                   times' temperature (nat n)
                   (w1\<lparr>operator_builds := operator_builds w1 + 1\<rparr>) of
              Inl e \<Rightarrow> Inl e
            | Inr (seqs, w') \<Rightarrow>
                Inr (\<lparr>basis = times', data = componentwise_mean (length times') seqs\<rparr>, w'))
       \<and> (\<forall>res w'. get_average_boltzmann_isf lib system config times' direction temperature
                      n w = Inr (res, w')
            \<longrightarrow> operator_builds w' = operator_builds w + 1
              \<and> hamiltonian_builds w' = hamiltonian_builds w + 1 + nat n)
       \<and> (n = 1 \<longrightarrow>
            get_average_boltzmann_isf lib system config times' direction temperature n w
            = (case get_random_boltzmann_state lib system config temperature
                      (w1\<lparr>operator_builds := operator_builds w1 + 1\<rparr>) of
                 Inl e \<Rightarrow> Inl e
               | Inr (state, w2) \<Rightarrow>
                  (case get_isf_from_hamiltonian lib hamiltonian
                          (get_periodic_x_operator lib (fst (basis hamiltonian)) direction)
                          state times' of
                     Inl e \<Rightarrow> Inl e
                   | Inr isf \<Rightarrow> Inr (\<lparr>basis = times', data = data isf\<rparr>, w2))))"
proof -
  let ?op = "get_periodic_x_operator lib (fst (basis hamiltonian)) direction"
  let ?w2 = "w1\<lparr>operator_builds := operator_builds w1 + 1\<rparr>"
  note eq = average_boltzmann_isf_eq [OF ham n, of times' direction temperature]
  have w1: "w1 = w\<lparr>hamiltonian_builds := hamiltonian_builds w + 1\<rparr>"
    using ham by (auto simp: get_hamiltonian_eq split: sum.splits)
  have counts: "operator_builds w' = operator_builds w + 1
              \<and> hamiltonian_builds w' = hamiltonian_builds w + 1 + nat n"
    if "get_average_boltzmann_isf lib system config times' direction temperature n w
        = Inr (res, w')" for res w'
  proof -
    from that obtain seqs where
      "sample_isfs lib system config hamiltonian ?op times' temperature (nat n) ?w2
       = Inr (seqs, w')"
      unfolding eq by (auto split: sum.splits)
    from sample_isfs_props [OF this] show ?thesis by (simp add: w1)
  qed
  have one: "get_average_boltzmann_isf lib system config times' direction temperature n w
            = (case get_random_boltzmann_state lib system config temperature ?w2 of
                 Inl e \<Rightarrow> Inl e
               | Inr (state, w2) \<Rightarrow>
                  (case get_isf_from_hamiltonian lib hamiltonian ?op state times' of
                     Inl e \<Rightarrow> Inl e
                   | Inr isf \<Rightarrow> Inr (\<lparr>basis = times', data = data isf\<rparr>, w2)))"
    if "n = 1"
    unfolding eq using that
    by (auto simp: mean_of_one length_isf_from_hamiltonian split: sum.splits)
  from eq counts one show ?thesis by blast
qed

lemma example_isf_returns:
  assumes "length (data st) = 2"
  shows "\<exists>isf. get_isf_from_hamiltonian example_library \<lparr>basis = ((), ()), data = [0, 1]\<rparr>
                 (get_periodic_x_operator example_library () direction) st times' = Inr isf"
  using assms
  by (simp add: get_isf_from_hamiltonian_def example_library_def
      solve_schrodinger_equation_diagonal_def apply_operator_to_states_def
      apply_operator_to_state_def calculate_inner_products_elementwise_def
      length_mat_vec list_all_iff list_all2_conv_all_nth)

lemma example_random_state_returns:
  assumes "temperature \<noteq> 0"
  shows "\<exists>st w2. get_random_boltzmann_state example_library example_system example_config
                   temperature w = Inr (st, w2)
               \<and> length (data st) = 2"
proof -
  have h: "get_hamiltonian example_library example_system example_config w
           = Inr (\<lparr>basis = ((), ()), data = [0, 1]\<rparr>,
                  w\<lparr>hamiltonian_builds := hamiltonian_builds w + 1\<rparr>)"
    by (rule example_hamiltonian)
  have t: "\<not> boltzmann_not_finite temperature
                (data \<lparr>basis = ((), ()), data = [0, 1::real]\<rparr>)"
    using assms by (simp add: boltzmann_not_finite_def)
  from random_state_returns [OF h t] obtain st w2 where
    r: "get_random_boltzmann_state example_library example_system example_config
          temperature w = Inr (st, w2)"
    by blast
  from random_state_magnitudes [OF r] h have "length (map cmod (data st)) = 2"
    by auto
  with r show ?thesis by auto
qed

lemma example_sample_isfs_returns:
  assumes "temperature \<noteq> 0"
  shows "\<exists>seqs w'. sample_isfs example_library example_system example_config
                     \<lparr>basis = ((), ()), data = [0, 1]\<rparr>
                     (get_periodic_x_operator example_library () direction)
                     times' temperature m w = Inr (seqs, w')"
proof (induction m arbitrary: w)
  case 0
  show ?case by simp
next
  case (Suc m)
  from example_random_state_returns [OF assms] obtain st w2 where
    r: "get_random_boltzmann_state example_library example_system example_config
          temperature w = Inr (st, w2)"
    and l: "length (data st) = 2"
    by blast
  from example_isf_returns [OF l] obtain isf where
    i: "get_isf_from_hamiltonian example_library \<lparr>basis = ((), ()), data = [0, 1]\<rparr>
          (get_periodic_x_operator example_library () direction) st times' = Inr isf"
    by blast
  from Suc.IH [of w2] obtain seqs w' where
    "sample_isfs example_library example_system example_config
       \<lparr>basis = ((), ()), data = [0, 1]\<rparr>
       (get_periodic_x_operator example_library () direction)
       times' temperature m w2 = Inr (seqs, w')"
    by blast
  with r i show ?case by simp
qed

lemma example_average_returns:
  assumes "0 < n"
  shows "\<exists>res w'. get_average_boltzmann_isf example_library example_system example_config
                    times' direction 300 n example_world = Inr (res, w')
                \<and> hamiltonian_builds w' = 1 + nat n"
proof -
  let ?H = "\<lparr>basis = ((), ()), data = [0, 1::real]\<rparr>"
  let ?w1 = "example_world\<lparr>hamiltonian_builds := hamiltonian_builds example_world + 1\<rparr>"
  have h: "get_hamiltonian example_library example_system example_config example_world
           = Inr (?H, ?w1)"
    by (rule example_hamiltonian)
  have "(300::real) \<noteq> 0" by simp
  from example_sample_isfs_returns [OF this, of direction times' "nat n"
      "?w1\<lparr>operator_builds := operator_builds ?w1 + 1\<rparr>"]
  obtain seqs w' where
    s: "sample_isfs example_library example_system example_config ?H
          (get_periodic_x_operator example_library () direction) times' 300 (nat n)
          (?w1\<lparr>operator_builds := operator_builds ?w1 + 1\<rparr>) = Inr (seqs, w')"
    by blast
  from sample_isfs_props [OF s] have "hamiltonian_builds w' = 1 + nat n"
    by (simp add: example_world_def)
  moreover have "get_average_boltzmann_isf example_library example_system example_config
                   times' direction 300 n example_world
                 = Inr (\<lparr>basis = times', data = componentwise_mean (length times') seqs\<rparr>, w')"
    using average_boltzmann_isf_eq [OF h assms, of times' direction 300] s by simp
  ultimately show ?thesis by blast
qed

text \<open>
  C4 as stated fails: with two samples the Hamiltonian is built three times, not once.
\<close>

theorem average_boltzmann_isf_rebuilds_hamiltonian:
  "\<not> isl (get_average_boltzmann_isf example_library example_system example_config
            [0, 1] [1] 300 2 example_world)
   \<and> hamiltonian_builds (snd (projr
        (get_average_boltzmann_isf example_library example_system example_config
           [0, 1] [1] 300 2 example_world))) = 3"
proof -
  from example_average_returns [of 2 "[0, 1]" "[1]"] obtain res w' where
    "get_average_boltzmann_isf example_library example_system example_config
       [0, 1] [1] 300 2 example_world = Inr (res, w')"
    and "hamiltonian_builds w' = 1 + nat 2"
    by auto
  then show ?thesis by simp
qed

theorem average_boltzmann_isf_is_mean_witness:
  "get_hamiltonian example_library example_system example_config example_world
   = Inr (\<lparr>basis = ((), ()), data = [0, 1]\<rparr>, example_world\<lparr>hamiltonian_builds := 1\<rparr>)
   \<and> (0::int) < 2
   \<and> get_average_boltzmann_isf example_library example_system example_config
       [0, 1] [1] 300 2 example_world
     = (case sample_isfs example_library example_system example_config
               \<lparr>basis = ((), ()), data = [0, 1]\<rparr>
               (get_periodic_x_operator example_library
                  (fst (basis \<lparr>basis = ((), ()), data = [0, 1::real]\<rparr>)) [1])
               [0, 1] 300 (nat 2)
               ((example_world\<lparr>hamiltonian_builds := 1\<rparr>)
                  \<lparr>operator_builds :=
                     operator_builds (example_world\<lparr>hamiltonian_builds := 1\<rparr>) + 1\<rparr>) of
          Inl e \<Rightarrow> Inl e
        | Inr (seqs, w') \<Rightarrow>
            Inr (\<lparr>basis = [0, 1],
                   data = componentwise_mean (length [0, 1::real]) seqs\<rparr>, w'))"
proof -
  let ?H = "\<lparr>basis = ((), ()), data = [0, 1::real]\<rparr>"
  have h: "get_hamiltonian example_library example_system example_config example_world
           = Inr (?H, example_world\<lparr>hamiltonian_builds := 1\<rparr>)"
    by (simp add: example_hamiltonian example_world_def)
  have n: "(0::int) < 2" by simp
  note T = average_boltzmann_isf_is_mean [OF h n, of "[0, 1]" "[1]" 300]
  from h n T [THEN conjunct1] show ?thesis by (intro conjI)
qed

end
